theory Spec2Isabelle
  imports Complex_Main
begin

section \<open>Values, exceptions and the outside world\<close>

text \<open>
  The program is a Python script of five functions (\<open>read_audio\<close>, \<open>process_audio\<close>,
  \<open>write_audio\<close>, \<open>get_user_input\<close>, \<open>main\<close>).  Python ints are \<open>int\<close>.  Floats
  are modelled as reals, without rounding; the only arithmetic the script does itself
  is the coefficient of line 62 and the sample conversion of line 29.

  An exception is a value; a call that may raise returns \<open>py_exception + 'a\<close>.
  \<open>OtherException\<close> stands for every other subclass of \<open>Exception\<close> (a decode
  error of a library, for instance), with the text \<open>str(e)\<close> gives.
\<close>

datatype py_exception =
    FileNotFoundError string
  | TypeError string
  | ZeroDivisionError string
  | EOFError
  | OtherException string

fun exn_str :: "py_exception \<Rightarrow> string" where
  "exn_str (FileNotFoundError m) = m"
| "exn_str (TypeError m) = m"
| "exn_str (ZeroDivisionError m) = m"
| "exn_str EOFError = []"
| "exn_str (OtherException m) = m"

fun is_FileNotFoundError :: "py_exception \<Rightarrow> bool" where
  "is_FileNotFoundError (FileNotFoundError m) = True"
| "is_FileNotFoundError e = False"

text \<open>The values the options dictionary holds, and Python's truth test on them.\<close>

datatype pyval = PNone | PBool bool | PInt int | PFloat real | PStr string

fun truthy :: "pyval \<Rightarrow> bool" where
  "truthy PNone = False"
| "truthy (PBool b) = b"
| "truthy (PInt i) = (i \<noteq> 0)"
| "truthy (PFloat r) = (r \<noteq> 0)"
| "truthy (PStr s) = (s \<noteq> [])"

type_synonym options = "string \<rightharpoonup> pyval"

text \<open>\<open>options.get(k)\<close> and \<open>options.get(k, d)\<close>.\<close>

definition dict_get :: "options \<Rightarrow> string \<Rightarrow> pyval" where
  "dict_get options k = (case options k of None \<Rightarrow> PNone | Some v \<Rightarrow> v)"

definition dict_get_default :: "options \<Rightarrow> string \<Rightarrow> pyval \<Rightarrow> pyval" where
  "dict_get_default options k d = (case options k of None \<Rightarrow> d | Some v \<Rightarrow> v)"

text \<open>
  \<open>x / sample_rate\<close> with \<open>sample_rate\<close> an int: the operand types are looked at
  first (TypeError), then the divisor (ZeroDivisionError); \<open>bool\<close> is a subclass of
  \<open>int\<close>.  The message texts leave out the quotes Python puts round the type names,
  and an operand beyond the range of a double (OverflowError) is not modelled.
\<close>

fun true_div :: "pyval \<Rightarrow> int \<Rightarrow> py_exception + real" where
  "true_div PNone d = Inl (TypeError ''unsupported operand type(s) for /: NoneType and int'')"
| "true_div (PStr s) d = Inl (TypeError ''unsupported operand type(s) for /: str and int'')"
| "true_div (PBool b) d =
     (if d = 0 then Inl (ZeroDivisionError ''division by zero'')
      else Inr ((if b then 1 else 0) / real_of_int d))"
| "true_div (PInt i) d =
     (if d = 0 then Inl (ZeroDivisionError ''division by zero'')
      else Inr (real_of_int i / real_of_int d))"
| "true_div (PFloat r) d =
     (if d = 0 then Inl (ZeroDivisionError ''float division by zero'')
      else Inr (r / real_of_int d))"

text \<open>
  An audio buffer is a one-dimensional array of samples.  A decoded container
  (\<open>pydub.AudioSegment\<close>) carries integer samples of a fixed width.
\<close>

type_synonym ndarray = "real list"

datatype dtype = Int8 | Int16 | Int32

fun iinfo_max :: "dtype \<Rightarrow> int" where
  "iinfo_max Int8 = 127"
| "iinfo_max Int16 = 32767"
| "iinfo_max Int32 = 2147483647"

record audio_segment =
  array_type :: dtype
  array_of_samples :: "int list"
  frame_rate :: int
  channels :: int

text \<open>
  The library calls the script makes are parameters of the model: \<open>os.path\<close>,
  \<open>pydub\<close>, \<open>soundfile\<close> and \<open>librosa\<close> are not part of the repository.  Each
  call that can raise returns a sum.  What the filter and the normaliser of \<open>librosa\<close>
  compute from a buffer is left open here; the script only decides whether they are
  called, in which order and with which arguments.  A later section fills the two in.
\<close>

record lib =
  os_expanduser :: "string \<Rightarrow> string"
  os_abspath :: "string \<Rightarrow> string"
  pydub_from_file :: "string \<Rightarrow> py_exception + audio_segment"
  pydub_set_channels :: "audio_segment \<Rightarrow> int \<Rightarrow> py_exception + audio_segment"
  pydub_set_frame_rate :: "audio_segment \<Rightarrow> int \<Rightarrow> py_exception + audio_segment"
  sf_read :: "string \<Rightarrow> py_exception + (ndarray \<times> int)"
  sf_write :: "string \<Rightarrow> ndarray \<Rightarrow> int \<Rightarrow> py_exception + unit"
  librosa_preemphasis :: "ndarray \<Rightarrow> real \<Rightarrow> py_exception + ndarray"
  librosa_normalize :: "ndarray \<Rightarrow> py_exception + ndarray"

text \<open>
  What the run does to the outside: a line printed, a prompt shown by \<open>input\<close>, a
  call of \<open>soundfile.write\<close> (the only place a file is created).
\<close>

datatype event =
    Print string
  | Input string
  | SfWrite string ndarray int

fun is_SfWrite :: "event \<Rightarrow> bool" where
  "is_SfWrite (SfWrite p d r) = True"
| "is_SfWrite e = False"

section \<open>Strings\<close>

text \<open>
  \<open>str.lower\<close>, \<open>str.endswith\<close> and \<open>str.strip\<close> on 8-bit characters.  A capital
  letter (65 to 90) and its small letter differ by 32, the sixth bit.  The white space
  of \<open>strip\<close> is what \<open>str.isspace\<close> accepts below 256.
\<close>

definition lower_char :: "char \<Rightarrow> char" where
  "lower_char c =
     (let n = (of_char c :: nat)
      in if 65 \<le> n \<and> n \<le> 90
         then (case c of Char b0 b1 b2 b3 b4 b5 b6 b7 \<Rightarrow> Char b0 b1 b2 b3 b4 True b6 b7)
         else c)"

definition lower :: "string \<Rightarrow> string" where
  "lower s = map lower_char s"

definition endswith :: "string \<Rightarrow> string \<Rightarrow> bool" where
  "endswith s suf = (length suf \<le> length s \<and> drop (length s - length suf) s = suf)"

definition isspace :: "char \<Rightarrow> bool" where
  "isspace c =
     (let n = (of_char c :: nat) in (9 \<le> n \<and> n \<le> 13) \<or> (28 \<le> n \<and> n \<le> 32) \<or> n = 133 \<or> n = 160)"

definition strip :: "string \<Rightarrow> string" where
  "strip s = rev (dropWhile isspace (rev (dropWhile isspace s)))"

section \<open>The reader\<close>

text \<open>
  Lines 23 to 35, the body of the \<open>try\<close> after the path is resolved.  The samples of
  an \<open>.m4a\<close> file are divided by \<open>np.iinfo(samples.dtype).max\<close>.  The division is
  in the reals: 8-bit and 16-bit operands are exact in float32; for 32-bit samples
  float32 rounds the divisor to \<open>2^31\<close>, which the model does not follow.
\<close>

definition samples_to_float :: "dtype \<Rightarrow> int list \<Rightarrow> ndarray" where
  "samples_to_float t xs = map (\<lambda>s. real_of_int s / real_of_int (iinfo_max t)) xs"

definition read_audio_try :: "lib \<Rightarrow> string \<Rightarrow> py_exception + (ndarray \<times> int)" where
  "read_audio_try L filepath =
     (if endswith (lower filepath) ''.m4a'' then
        (case pydub_from_file L filepath of
           Inl e \<Rightarrow> Inl e
         | Inr audio \<Rightarrow>
             (case pydub_set_channels L audio 1 of
                Inl e \<Rightarrow> Inl e
              | Inr audio1 \<Rightarrow>
                  (case pydub_set_frame_rate L audio1 22050 of
                     Inl e \<Rightarrow> Inl e
                   | Inr audio2 \<Rightarrow>
                       Inr (samples_to_float (array_type audio2) (array_of_samples audio2),
                            frame_rate audio2))))
      else sf_read L filepath)"

text \<open>
  \<open>read_audio\<close>: the printed lines and the value returned, \<open>None\<close> for Python's
  \<open>None\<close>.
\<close>

definition read_audio :: "lib \<Rightarrow> string \<Rightarrow> event list \<times> (ndarray \<times> int) option" where
  "read_audio L filepath0 =
     (let filepath = os_abspath L (os_expanduser L filepath0);
          out = [Print (''Reading audio file from: '' @ filepath)]
      in case read_audio_try L filepath of
           Inr r \<Rightarrow> (out, Some r)
         | Inl e \<Rightarrow>
             (if is_FileNotFoundError e
              then (out @ [Print (''Error: Audio file not found at '' @ filepath)], None)
              else (out @ [Print (''Error: '' @ exn_str e)], None)))"

section \<open>The transformer\<close>

text \<open>
  \<open>process_audio\<close>, statement by statement; \<open>pass\<close> leaves the buffer as it is.
\<close>

definition process_audio :: "lib \<Rightarrow> ndarray \<Rightarrow> int \<Rightarrow> options \<Rightarrow> py_exception + ndarray" where
  "process_audio L audio_data sample_rate options =
     (let a0 = (if truthy (dict_get options ''noise_reduction'') then audio_data else audio_data)
      in case (if truthy (dict_get options ''speech_emphasis'')
               then (let rolloff_freq =
                           dict_get_default options ''rolloff_freq''
                             (PFloat (0.1 * real_of_int sample_rate))
                     in case true_div rolloff_freq sample_rate of
                          Inl e \<Rightarrow> Inl e
                        | Inr coef \<Rightarrow> librosa_preemphasis L a0 coef)
               else Inr a0) of
           Inl e \<Rightarrow> Inl e
         | Inr a1 \<Rightarrow>
             (let a2 = (if truthy (dict_get options ''bass_boost'') then a1
                        else if truthy (dict_get options ''treble_boost'') then a1
                        else a1)
              in case (if truthy (dict_get options ''normalize'')
                       then librosa_normalize L a2
                       else Inr a2) of
                   Inl e \<Rightarrow> Inl e
                 | Inr a3 \<Rightarrow>
                     Inr (if truthy (dict_get options ''compress'') then a3 else a3)))"

section \<open>The writer and the prompt\<close>

definition write_audio :: "lib \<Rightarrow> ndarray \<Rightarrow> int \<Rightarrow> string \<Rightarrow> event list \<times> (py_exception + unit)" where
  "write_audio L processed_data sample_rate output_path =
     ([SfWrite output_path processed_data sample_rate],
      sf_write L output_path processed_data sample_rate)"

text \<open>
  Standard input is the list of lines still to be read; \<open>input\<close> on the empty list
  raises EOFError.  The function returns its result, the lines left and what it showed.
\<close>

fun get_user_input :: "string \<Rightarrow> string list \<Rightarrow> (py_exception + string) \<times> string list \<times> event list" where
  "get_user_input prompt [] = (Inl EOFError, [], [Input prompt])"
| "get_user_input prompt (user_input # rest) =
     (if user_input \<noteq> [] then (Inr (strip user_input), rest, [Input prompt])
      else (case get_user_input prompt rest of
              (r, rest', out) \<Rightarrow> (r, rest', [Input prompt, Print ''Please enter a value.''] @ out)))"

section \<open>The main program\<close>

datatype outcome = Completed | EarlyReturn | Uncaught py_exception

text \<open>The dictionary literal of lines 118 to 126.\<close>

definition main_options :: "int \<Rightarrow> options" where
  "main_options sample_rate = map_of
     [(''noise_reduction'', PBool True),
      (''speech_emphasis'', PBool True),
      (''rolloff_freq'', PFloat (0.1 * real_of_int sample_rate)),
      (''bass_boost'', PNone),
      (''treble_boost'', PNone),
      (''normalize'', PBool True),
      (''compress'', PBool False)]"

text \<open>
  \<open>a, b = v\<close>: unpacking \<open>None\<close> raises TypeError.  The first component of a pair
  that \<open>read_audio\<close> returns is an array, which is never the object \<open>None\<close>.
\<close>

definition unpack :: "(ndarray \<times> int) option \<Rightarrow> py_exception + (ndarray \<times> int)" where
  "unpack v = (case v of
      None \<Rightarrow> Inl (TypeError ''cannot unpack non-iterable NoneType object'')
    | Some p \<Rightarrow> Inr p)"

definition is_None :: "ndarray \<Rightarrow> bool" where
  "is_None a = False"

definition main :: "lib \<Rightarrow> string list \<Rightarrow> outcome \<times> event list" where
  "main L stdin =
     (case get_user_input ''Enter the path to your audio file: '' stdin of
        (Inl e, rest, out1) \<Rightarrow> (Uncaught e, out1)
      | (Inr audio_filepath, rest, out1) \<Rightarrow>
          (case read_audio L audio_filepath of (out2, v) \<Rightarrow>
             (case unpack v of
                Inl e \<Rightarrow> (Uncaught e, out1 @ out2)
              | Inr (audio_data, sample_rate) \<Rightarrow>
                  if is_None audio_data then (EarlyReturn, out1 @ out2)
                  else
                    (case process_audio L audio_data sample_rate (main_options sample_rate) of
                       Inl e \<Rightarrow> (Uncaught e, out1 @ out2)
                     | Inr processed_audio \<Rightarrow>
                         (case get_user_input ''Enter the path to save the processed audio file: '' rest of
                            (Inl e, rest', out3) \<Rightarrow> (Uncaught e, out1 @ out2 @ out3)
                          | (Inr output_filepath, rest', out3) \<Rightarrow>
                              (case write_audio L processed_audio sample_rate output_filepath of
                                 (out4, Inl e) \<Rightarrow> (Uncaught e, out1 @ out2 @ out3 @ out4)
                               | (out4, Inr u) \<Rightarrow>
                                   (Completed,
                                    out1 @ out2 @ out3 @ out4 @ [Print ''Audio processing complete!''])))))))"

section \<open>The transformer as the specification words it\<close>

text \<open>
  The two steps that do something, each behind its switch, to be compared with
  \<open>process_audio\<close>: pre-emphasis with the coefficient of lines 61 and 62, then peak
  normalisation.
\<close>

definition speech_emphasis_step :: "lib \<Rightarrow> int \<Rightarrow> options \<Rightarrow> ndarray \<Rightarrow> py_exception + ndarray" where
  "speech_emphasis_step L sample_rate options a =
     (if truthy (dict_get options ''speech_emphasis'')
      then (case true_div (dict_get_default options ''rolloff_freq''
                             (PFloat (0.1 * real_of_int sample_rate))) sample_rate of
              Inl e \<Rightarrow> Inl e
            | Inr coef \<Rightarrow> librosa_preemphasis L a coef)
      else Inr a)"

definition normalize_step :: "lib \<Rightarrow> options \<Rightarrow> ndarray \<Rightarrow> py_exception + ndarray" where
  "normalize_step L options a =
     (if truthy (dict_get options ''normalize'') then librosa_normalize L a else Inr a)"

definition process_audio_spec :: "lib \<Rightarrow> ndarray \<Rightarrow> int \<Rightarrow> options \<Rightarrow> py_exception + ndarray" where
  "process_audio_spec L audio_data sample_rate options =
     (case speech_emphasis_step L sample_rate options audio_data of
        Inl e \<Rightarrow> Inl e
      | Inr a \<Rightarrow> normalize_step L options a)"

text \<open>The number a dictionary value stands for in a division, when it is one.\<close>

fun float_of :: "pyval \<Rightarrow> real option" where
  "float_of (PBool b) = Some (if b then 1 else 0)"
| "float_of (PInt i) = Some (real_of_int i)"
| "float_of (PFloat r) = Some r"
| "float_of v = None"

section \<open>A small world to run the program in\<close>

text \<open>
  A home directory with two files: \<open>clip.m4a\<close>, 16-bit, mono, 22050 frames a second,
  whose three samples are the least, the middle and the greatest 16-bit value, and
  \<open>tone.wav\<close>, two samples at 8000.  Every other path fails to open.  The two
  \<open>librosa\<close> entries are stand-ins (a first-order difference started at zero, and a
  division by the peak), there so that a run can be evaluated.
\<close>

definition test_lib :: lib where
  "test_lib =
     \<lparr> os_expanduser = (\<lambda>p. p),
       os_abspath = (\<lambda>p. ''/home/user/'' @ p),
       pydub_from_file = (\<lambda>p.
          if p = ''/home/user/clip.m4a''
          then Inr \<lparr> array_type = Int16, array_of_samples = [- 32768, 0, 32767],
                     frame_rate = 22050, channels = 1 \<rparr>
          else Inl (FileNotFoundError ''[Errno 2] No such file or directory'')),
       pydub_set_channels = (\<lambda>a c. Inr (a\<lparr>channels := c\<rparr>)),
       pydub_set_frame_rate = (\<lambda>a r. Inr (a\<lparr>frame_rate := r\<rparr>)),
       sf_read = (\<lambda>p.
          if p = ''/home/user/tone.wav'' then Inr ([0.5, - 0.25], 8000)
          else Inl (OtherException ''Error opening file: System error.'')),
       sf_write = (\<lambda>p d r. Inr ()),
       librosa_preemphasis = (\<lambda>a c. Inr (map2 (\<lambda>x prev. x - c * prev) a (0 # a))),
       librosa_normalize = (\<lambda>a.
          let peak = fold max (map abs a) 0
          in Inr (if peak = 0 then a else map (\<lambda>x. x / peak) a)) \<rparr>"

section \<open>The two routines of librosa\<close>

text \<open>
  Modelled from the spec: \<open>librosa.util.normalize\<close> is not in the repository.  The
  glossary has it rescale a signal so that its greatest absolute amplitude is 1.0:
  every sample is divided by the peak.  A buffer whose peak is zero cannot be rescaled
  to 1.0; the library leaves it as it is.  The maximum of no samples does not exist,
  and the library raises there.
\<close>

fun peak :: "ndarray \<Rightarrow> real" where
  "peak [] = 0"
| "peak (x # xs) = max \<bar>x\<bar> (peak xs)"

definition util_normalize :: "ndarray \<Rightarrow> py_exception + ndarray" where
  "util_normalize S =
     (if S = []
      then Inl (OtherException
                  ''zero-size array to reduction operation maximum which has no identity'')
      else Inr (if peak S = 0 then S else map (\<lambda>x. x / peak S) S))"

text \<open>
  Modelled from the spec: \<open>librosa.effects.preemphasis\<close> is not in the repository.  The
  glossary has it a first-order high-pass filter, \<open>y[n] = x[n] - coef * x[n-1]\<close>.  The
  state the filter starts from is the library's documented default \<open>2 * x[0] - x[1]\<close>,
  which is added to the first sample; it needs two samples, and the library raises on a
  shorter buffer.
\<close>

fun effects_preemphasis :: "ndarray \<Rightarrow> real \<Rightarrow> py_exception + ndarray" where
  "effects_preemphasis (y0 # y1 # ys) coef =
     (let zi = 2 * y0 - y1
      in Inr ((y0 + zi) # map2 (\<lambda>x prev. x - coef * prev) (y1 # ys) (y0 # y1 # ys)))"
| "effects_preemphasis ys coef = Inl (OtherException ''Unexpected shape for zi'')"

text \<open>A world with the two routines filled in.\<close>

definition with_librosa :: "lib \<Rightarrow> lib" where
  "with_librosa L =
     L\<lparr> librosa_preemphasis := effects_preemphasis, librosa_normalize := util_normalize \<rparr>"

section \<open>Facts about the parts\<close>

lemmas string_defs = lower_def lower_char_def endswith_def strip_def isspace_def

lemma get_user_input_no_write:
  "get_user_input prompt stdin = (r, rest, out) \<Longrightarrow> \<not> list_ex is_SfWrite out"
proof (induction stdin arbitrary: r rest out)
  case Nil
  then show ?case by auto
next
  case (Cons l ls)
  show ?case
  proof (cases "l = []")
    case True
    obtain r' rest' out' where g: "get_user_input prompt ls = (r', rest', out')"
      by (cases "get_user_input prompt ls") auto
    with Cons.prems True have "out = [Input prompt, Print ''Please enter a value.''] @ out'"
      by simp
    moreover from Cons.IH [OF g] have "\<not> list_ex is_SfWrite out'" .
    ultimately show ?thesis by simp
  next
    case False
    with Cons.prems show ?thesis by auto
  qed
qed

lemma get_user_input_not_write:
  "get_user_input prompt stdin = (r, rest, out) \<Longrightarrow> SfWrite q d n \<notin> set out"
  using get_user_input_no_write [of prompt stdin r rest out]
  by (auto simp: list_ex_iff)

text \<open>Empty lines are skipped; the first line that is not empty is returned stripped.\<close>

lemma get_user_input_first_nonempty:
  "l \<noteq> [] \<Longrightarrow>
     get_user_input prompt (replicate n [] @ l # rest)
       = (Inr (strip l), rest,
          concat (replicate n [Input prompt, Print ''Please enter a value.'']) @ [Input prompt])"
  by (induction n) simp_all

lemma read_audio_no_write: "\<not> list_ex is_SfWrite (fst (read_audio L p))"
  by (simp add: read_audio_def Let_def split: sum.splits)

lemma read_audio_not_write: "read_audio L p = (out, v) \<Longrightarrow> SfWrite q d n \<notin> set out"
  using read_audio_no_write [of L p] by (auto simp: list_ex_iff)

lemma read_audio_fail:
  assumes "read_audio_try L (os_abspath L (os_expanduser L p)) = Inl e"
  shows "read_audio L p =
           ([Print (''Reading audio file from: '' @ os_abspath L (os_expanduser L p)),
             Print (if is_FileNotFoundError e
                    then ''Error: Audio file not found at '' @ os_abspath L (os_expanduser L p)
                    else ''Error: '' @ exn_str e)], None)"
  using assms by (simp add: read_audio_def Let_def)

lemma main_read_none:
  assumes g: "get_user_input ''Enter the path to your audio file: '' stdin = (Inr p, rest, out1)"
    and r: "snd (read_audio L p) = None"
  shows "main L stdin =
           (Uncaught (TypeError ''cannot unpack non-iterable NoneType object''),
            out1 @ fst (read_audio L p))"
proof -
  obtain out2 where "read_audio L p = (out2, None)"
    using r by (cases "read_audio L p") auto
  with g show ?thesis
    by (simp add: main_def unpack_def)
qed

lemma main_never_early: "fst (main L stdin) \<noteq> EarlyReturn"
  by (simp add: main_def is_None_def write_audio_def split: prod.splits sum.splits)

lemma process_audio_eq_spec:
  "process_audio L a sr options = process_audio_spec L a sr options"
  by (simp add: process_audio_def process_audio_spec_def speech_emphasis_step_def
      normalize_step_def Let_def split: sum.splits)

lemma process_audio_spec_cong:
  assumes "options' ''speech_emphasis'' = options ''speech_emphasis''"
    and "options' ''rolloff_freq'' = options ''rolloff_freq''"
    and "options' ''normalize'' = options ''normalize''"
  shows "process_audio_spec L a sr options' = process_audio_spec L a sr options"
proof -
  have "\<And>b. normalize_step L options' b = normalize_step L options b"
    using assms(3) by (simp add: normalize_step_def dict_get_def)
  moreover have "speech_emphasis_step L sr options' a = speech_emphasis_step L sr options a"
    using assms(1,2) by (simp add: speech_emphasis_step_def dict_get_def dict_get_default_def)
  ultimately show ?thesis
    by (simp add: process_audio_spec_def split: sum.splits)
qed

lemma true_div_float_of:
  "float_of v = Some r \<Longrightarrow> d \<noteq> 0 \<Longrightarrow> true_div v d = Inr (r / real_of_int d)"
  by (cases v) auto

text \<open>
  When the \<open>.m4a\<close> branch returns, the buffer is the decoder's integer array divided
  by the greatest value of its type, and the rate is the frame rate of the segment the
  resampling call gave back.
\<close>

lemma read_audio_try_m4a:
  assumes "endswith (lower filepath) ''.m4a''"
    and "read_audio_try L filepath = Inr (samples, sample_rate)"
  shows "\<exists>audio audio1 audio2.
           pydub_from_file L filepath = Inr audio
         \<and> pydub_set_channels L audio 1 = Inr audio1
         \<and> pydub_set_frame_rate L audio1 22050 = Inr audio2
         \<and> samples = samples_to_float (array_type audio2) (array_of_samples audio2)
         \<and> sample_rate = frame_rate audio2"
  using assms by (auto simp: read_audio_try_def split: sum.splits)

section \<open>Read failures\<close>

text \<open>
  Claim C1.  Whenever the body of the \<open>try\<close> in \<open>read_audio\<close> raises (a missing file
  or any other exception of a decoder), \<open>read_audio\<close> returns \<open>None\<close> and the last line
  it prints is an error message; and a run of \<open>main\<close> in which that path was entered
  does not complete and never calls \<open>soundfile.write\<close>, so no output file is created.
\<close>

theorem read_failure_aborts:
  assumes "read_audio_try L (os_abspath L (os_expanduser L p)) = Inl e"
  shows "snd (read_audio L p) = None
       \<and> (\<exists>msg. last (fst (read_audio L p)) = Print (''Error: '' @ msg))
       \<and> (\<forall>stdin. fst (get_user_input ''Enter the path to your audio file: '' stdin) = Inr p
            \<longrightarrow> fst (main L stdin) \<noteq> Completed
              \<and> \<not> list_ex is_SfWrite (snd (main L stdin)))"
proof (intro conjI allI impI)
  show n: "snd (read_audio L p) = None"
    using read_audio_fail [OF assms] by simp
  show "\<exists>msg. last (fst (read_audio L p)) = Print (''Error: '' @ msg)"
    using read_audio_fail [OF assms] by (cases "is_FileNotFoundError e") simp_all
  fix stdin
  assume "fst (get_user_input ''Enter the path to your audio file: '' stdin) = Inr p"
  then obtain rest out1
    where g: "get_user_input ''Enter the path to your audio file: '' stdin = (Inr p, rest, out1)"
    by (cases "get_user_input ''Enter the path to your audio file: '' stdin") auto
  note m = main_read_none [OF g n]
  show "fst (main L stdin) \<noteq> Completed"
    by (simp add: m)
  show "\<not> list_ex is_SfWrite (snd (main L stdin))"
    using get_user_input_no_write [OF g] read_audio_no_write [of L p] by (simp add: m)
qed

text \<open>The theorem at a missing \<open>.m4a\<close> file, with an output path waiting on standard input.\<close>

theorem read_failure_aborts_witness:
  "read_audio_try test_lib (os_abspath test_lib (os_expanduser test_lib ''gone.m4a''))
     = Inl (FileNotFoundError ''[Errno 2] No such file or directory'')
   \<and> snd (read_audio test_lib ''gone.m4a'') = None
   \<and> fst (main test_lib [''gone.m4a'', ''out.wav'']) \<noteq> Completed
   \<and> \<not> list_ex is_SfWrite (snd (main test_lib [''gone.m4a'', ''out.wav'']))"
proof -
  have h: "read_audio_try test_lib (os_abspath test_lib (os_expanduser test_lib ''gone.m4a''))
     = Inl (FileNotFoundError ''[Errno 2] No such file or directory'')"
    by (simp add: read_audio_try_def test_lib_def string_defs)
  have g: "fst (get_user_input ''Enter the path to your audio file: '' [''gone.m4a'', ''out.wav''])
     = Inr ''gone.m4a''"
    by (simp add: strip_def isspace_def)
  from read_failure_aborts [OF h] g h show ?thesis by blast
qed

text \<open>
  Claim C2.  When \<open>read_audio\<close> returns \<open>None\<close> for the path entered, \<open>main\<close> ends with
  the uncaught TypeError of the tuple unpacking; and no run of \<open>main\<close> at all ends by
  the early \<open>return\<close> of line 115.
\<close>

theorem unpack_none_crashes:
  "(\<forall>p. fst (get_user_input ''Enter the path to your audio file: '' stdin) = Inr p
        \<and> snd (read_audio L p) = None
      \<longrightarrow> fst (main L stdin) = Uncaught (TypeError ''cannot unpack non-iterable NoneType object''))
   \<and> fst (main L stdin) \<noteq> EarlyReturn"
proof (intro conjI allI impI)
  fix p
  assume a: "fst (get_user_input ''Enter the path to your audio file: '' stdin) = Inr p
        \<and> snd (read_audio L p) = None"
  then obtain rest out1
    where g: "get_user_input ''Enter the path to your audio file: '' stdin = (Inr p, rest, out1)"
    by (cases "get_user_input ''Enter the path to your audio file: '' stdin") auto
  from a have "snd (read_audio L p) = None" by simp
  from main_read_none [OF g this]
  show "fst (main L stdin) = Uncaught (TypeError ''cannot unpack non-iterable NoneType object'')"
    by simp
next
  show "fst (main L stdin) \<noteq> EarlyReturn" by (rule main_never_early)
qed

text \<open>The theorem at a file the reader cannot decode.\<close>

theorem unpack_none_crashes_witness:
  "fst (get_user_input ''Enter the path to your audio file: '' [''notes.txt'']) = Inr ''notes.txt''
   \<and> snd (read_audio test_lib ''notes.txt'') = None
   \<and> fst (main test_lib [''notes.txt''])
       = Uncaught (TypeError ''cannot unpack non-iterable NoneType object'')"
proof -
  have g: "fst (get_user_input ''Enter the path to your audio file: '' [''notes.txt''])
     = Inr ''notes.txt''"
    by (simp add: strip_def isspace_def)
  have n: "snd (read_audio test_lib ''notes.txt'') = None"
    by (simp add: read_audio_def read_audio_try_def test_lib_def string_defs)
  from unpack_none_crashes [of "[''notes.txt'']" test_lib] g n show ?thesis by blast
qed

section \<open>The transformer\<close>

text \<open>
  Claim C3.  For every buffer, sample rate and options, \<open>process_audio\<close> is pre-emphasis
  if \<open>speech_emphasis\<close> is truthy, followed by normalisation if \<open>normalize\<close> is truthy.
  Its result is the same for any two dictionaries that agree on \<open>speech_emphasis\<close>,
  \<open>rolloff_freq\<close> and \<open>normalize\<close>, so every other key, present or not, has no effect.
  With both switches off the buffer comes back as it went in.
\<close>

theorem process_audio_composition:
  "process_audio L audio_data sample_rate options
     = process_audio_spec L audio_data sample_rate options
   \<and> (\<forall>options'.
        (\<forall>k \<in> {''speech_emphasis'', ''rolloff_freq'', ''normalize''}. options' k = options k)
        \<longrightarrow> process_audio L audio_data sample_rate options'
              = process_audio L audio_data sample_rate options)
   \<and> (\<not> truthy (dict_get options ''speech_emphasis'') \<and> \<not> truthy (dict_get options ''normalize'')
        \<longrightarrow> process_audio L audio_data sample_rate options = Inr audio_data)"
proof (intro conjI allI impI)
  show "process_audio L audio_data sample_rate options
     = process_audio_spec L audio_data sample_rate options"
    by (rule process_audio_eq_spec)
next
  fix options'
  assume "\<forall>k \<in> {''speech_emphasis'', ''rolloff_freq'', ''normalize''}. options' k = options k"
  then have "process_audio_spec L audio_data sample_rate options'
      = process_audio_spec L audio_data sample_rate options"
    by (intro process_audio_spec_cong) simp_all
  then show "process_audio L audio_data sample_rate options'
              = process_audio L audio_data sample_rate options"
    by (simp add: process_audio_eq_spec)
next
  assume "\<not> truthy (dict_get options ''speech_emphasis'') \<and> \<not> truthy (dict_get options ''normalize'')"
  then show "process_audio L audio_data sample_rate options = Inr audio_data"
    by (simp add: process_audio_def Let_def)
qed

text \<open>
  The theorem at the dictionary of \<open>main\<close> with \<open>compress\<close> switched on and a key the
  program does not know, and at a dictionary with both switches absent.
\<close>

theorem process_audio_composition_witness:
  "process_audio test_lib [0.5, - 0.25] 8000
      ((main_options 8000)(''compress'' \<mapsto> PBool True, ''gain'' \<mapsto> PInt 3))
     = process_audio test_lib [0.5, - 0.25] 8000 (main_options 8000)
   \<and> process_audio test_lib [0.5, - 0.25] 8000
        [''noise_reduction'' \<mapsto> PBool True, ''compress'' \<mapsto> PInt 1]
     = Inr [0.5, - 0.25]"
proof -
  have k: "\<forall>k \<in> {''speech_emphasis'', ''rolloff_freq'', ''normalize''}.
             ((main_options 8000)(''compress'' \<mapsto> PBool True, ''gain'' \<mapsto> PInt 3)) k
               = main_options 8000 k"
    by simp
  have d: "\<not> truthy (dict_get [''noise_reduction'' \<mapsto> PBool True, ''compress'' \<mapsto> PInt 1]
                        ''speech_emphasis'')
         \<and> \<not> truthy (dict_get [''noise_reduction'' \<mapsto> PBool True, ''compress'' \<mapsto> PInt 1]
                        ''normalize'')"
    by (simp add: dict_get_def)
  from process_audio_composition [of test_lib "[0.5, - 0.25]" 8000 "main_options 8000"] k
  have "process_audio test_lib [0.5, - 0.25] 8000
          ((main_options 8000)(''compress'' \<mapsto> PBool True, ''gain'' \<mapsto> PInt 3))
     = process_audio test_lib [0.5, - 0.25] 8000 (main_options 8000)"
    by blast
  moreover
  from process_audio_composition [of test_lib "[0.5, - 0.25]" 8000
      "[''noise_reduction'' \<mapsto> PBool True, ''compress'' \<mapsto> PInt 1]"] d
  have "process_audio test_lib [0.5, - 0.25] 8000
          [''noise_reduction'' \<mapsto> PBool True, ''compress'' \<mapsto> PInt 1]
     = Inr [0.5, - 0.25]"
    by blast
  ultimately show ?thesis by simp
qed

text \<open>
  Claim C4.  With \<open>speech_emphasis\<close> truthy and a sample rate other than zero, the
  coefficient \<open>process_audio\<close> hands to the pre-emphasis filter is the roll-off frequency
  divided by the sample rate, for every numeric roll-off frequency; the roll-off
  frequency is \<open>0.1 * sample_rate\<close> when the key is absent; and a roll-off frequency of
  \<open>0.5 * sample_rate\<close> gives the coefficient \<open>0.5\<close>.
\<close>

theorem emphasis_coefficient:
  assumes se: "truthy (dict_get options ''speech_emphasis'')"
    and sr: "sample_rate \<noteq> 0"
  shows "(\<forall>rolloff_freq.
            float_of (dict_get_default options ''rolloff_freq''
                        (PFloat (0.1 * real_of_int sample_rate))) = Some rolloff_freq
            \<longrightarrow> process_audio L audio_data sample_rate options
                  = (case librosa_preemphasis L audio_data (rolloff_freq / real_of_int sample_rate) of
                       Inl e \<Rightarrow> Inl e
                     | Inr a \<Rightarrow> normalize_step L options a))
       \<and> (options ''rolloff_freq'' = None
            \<longrightarrow> process_audio L audio_data sample_rate options
                  = (case librosa_preemphasis L audio_data
                            (0.1 * real_of_int sample_rate / real_of_int sample_rate) of
                       Inl e \<Rightarrow> Inl e
                     | Inr a \<Rightarrow> normalize_step L options a))
       \<and> (options ''rolloff_freq'' = Some (PFloat (0.5 * real_of_int sample_rate))
            \<longrightarrow> process_audio L audio_data sample_rate options
                  = (case librosa_preemphasis L audio_data 0.5 of
                       Inl e \<Rightarrow> Inl e
                     | Inr a \<Rightarrow> normalize_step L options a))"
proof (intro conjI allI impI)
  fix rolloff_freq
  assume "float_of (dict_get_default options ''rolloff_freq''
                        (PFloat (0.1 * real_of_int sample_rate))) = Some rolloff_freq"
  from true_div_float_of [OF this sr] se
  show "process_audio L audio_data sample_rate options
                  = (case librosa_preemphasis L audio_data (rolloff_freq / real_of_int sample_rate) of
                       Inl e \<Rightarrow> Inl e
                     | Inr a \<Rightarrow> normalize_step L options a)"
    by (simp add: process_audio_eq_spec process_audio_spec_def speech_emphasis_step_def)
next
  assume "options ''rolloff_freq'' = None"
  with se sr
  show "process_audio L audio_data sample_rate options
                  = (case librosa_preemphasis L audio_data
                            (0.1 * real_of_int sample_rate / real_of_int sample_rate) of
                       Inl e \<Rightarrow> Inl e
                     | Inr a \<Rightarrow> normalize_step L options a)"
    by (simp add: process_audio_eq_spec process_audio_spec_def speech_emphasis_step_def
        dict_get_default_def)
next
  assume "options ''rolloff_freq'' = Some (PFloat (0.5 * real_of_int sample_rate))"
  with se sr
  show "process_audio L audio_data sample_rate options
                  = (case librosa_preemphasis L audio_data 0.5 of
                       Inl e \<Rightarrow> Inl e
                     | Inr a \<Rightarrow> normalize_step L options a)"
    by (simp add: process_audio_eq_spec process_audio_spec_def speech_emphasis_step_def
        dict_get_default_def)
qed

text \<open>
  The theorem at the rate 22050: with the dictionary of \<open>main\<close>, with the key absent, and
  with a roll-off frequency of half the rate.
\<close>

theorem emphasis_coefficient_witness:
  "truthy (dict_get (main_options 22050) ''speech_emphasis'') \<and> (22050::int) \<noteq> 0
   \<and> process_audio test_lib [0.5, - 0.25] 22050 (main_options 22050)
       = (case librosa_preemphasis test_lib [0.5, - 0.25] (0.1 * 22050 / 22050) of
            Inl e \<Rightarrow> Inl e
          | Inr a \<Rightarrow> normalize_step test_lib (main_options 22050) a)
   \<and> process_audio test_lib [0.5, - 0.25] 22050 [''speech_emphasis'' \<mapsto> PBool True]
       = (case librosa_preemphasis test_lib [0.5, - 0.25] (0.1 * 22050 / 22050) of
            Inl e \<Rightarrow> Inl e
          | Inr a \<Rightarrow> normalize_step test_lib [''speech_emphasis'' \<mapsto> PBool True] a)
   \<and> process_audio test_lib [0.5, - 0.25] 22050
          [''speech_emphasis'' \<mapsto> PBool True, ''rolloff_freq'' \<mapsto> PFloat (0.5 * 22050)]
       = (case librosa_preemphasis test_lib [0.5, - 0.25] 0.5 of
            Inl e \<Rightarrow> Inl e
          | Inr a \<Rightarrow> normalize_step test_lib
               [''speech_emphasis'' \<mapsto> PBool True, ''rolloff_freq'' \<mapsto> PFloat (0.5 * 22050)] a)"
proof -
  have se: "truthy (dict_get (main_options 22050) ''speech_emphasis'')"
    by (simp add: dict_get_def main_options_def)
  have sr: "(22050::int) \<noteq> 0" by simp
  have f: "float_of (dict_get_default (main_options 22050) ''rolloff_freq''
                        (PFloat (0.1 * real_of_int 22050))) = Some (0.1 * 22050)"
    by (simp add: dict_get_default_def main_options_def)
  have se2: "truthy (dict_get [''speech_emphasis'' \<mapsto> PBool True] ''speech_emphasis'')"
    by (simp add: dict_get_def)
  have se3: "truthy (dict_get [''speech_emphasis'' \<mapsto> PBool True,
                               ''rolloff_freq'' \<mapsto> PFloat (0.5 * 22050)] ''speech_emphasis'')"
    by (simp add: dict_get_def)
  have a: "process_audio test_lib [0.5, - 0.25] 22050 (main_options 22050)
       = (case librosa_preemphasis test_lib [0.5, - 0.25] (0.1 * 22050 / 22050) of
            Inl e \<Rightarrow> Inl e
          | Inr a \<Rightarrow> normalize_step test_lib (main_options 22050) a)"
    using emphasis_coefficient [OF se sr, of test_lib "[0.5, - 0.25]"] f by simp
  have b: "process_audio test_lib [0.5, - 0.25] 22050 [''speech_emphasis'' \<mapsto> PBool True]
       = (case librosa_preemphasis test_lib [0.5, - 0.25] (0.1 * 22050 / 22050) of
            Inl e \<Rightarrow> Inl e
          | Inr a \<Rightarrow> normalize_step test_lib [''speech_emphasis'' \<mapsto> PBool True] a)"
    using emphasis_coefficient [OF se2 sr, of test_lib "[0.5, - 0.25]"] by simp
  have c: "process_audio test_lib [0.5, - 0.25] 22050
          [''speech_emphasis'' \<mapsto> PBool True, ''rolloff_freq'' \<mapsto> PFloat (0.5 * 22050)]
       = (case librosa_preemphasis test_lib [0.5, - 0.25] 0.5 of
            Inl e \<Rightarrow> Inl e
          | Inr a \<Rightarrow> normalize_step test_lib
               [''speech_emphasis'' \<mapsto> PBool True, ''rolloff_freq'' \<mapsto> PFloat (0.5 * 22050)] a)"
    using emphasis_coefficient [OF se3 sr, of test_lib "[0.5, - 0.25]"] by simp
  from se sr a b c show ?thesis by blast
qed

section \<open>The sample rate\<close>

text \<open>
  Claim C6.  Whenever a run of \<open>main\<close> calls \<open>soundfile.write\<close>, the sample rate in
  that call is the one \<open>read_audio\<close> returned for the path entered, and the data
  written is what \<open>process_audio\<close> returned for the buffer read at that same rate;
  \<open>process_audio\<close> returns a buffer only and has no way to change the rate.
\<close>

theorem sample_rate_propagated:
  assumes "SfWrite output_path data rate \<in> set (snd (main L stdin))"
  shows "\<exists>p rest out1 a.
           get_user_input ''Enter the path to your audio file: '' stdin = (Inr p, rest, out1)
         \<and> snd (read_audio L p) = Some (a, rate)
         \<and> process_audio L a rate (main_options rate) = Inr data"
proof -
  obtain r rest out1
    where g: "get_user_input ''Enter the path to your audio file: '' stdin = (r, rest, out1)"
    by (cases "get_user_input ''Enter the path to your audio file: '' stdin") auto
  note nw1 = get_user_input_not_write [OF g, of output_path data rate]
  show ?thesis
  proof (cases r)
    case (Inl e)
    with g assms nw1 show ?thesis by (simp add: main_def)
  next
    case (Inr p)
    obtain out2 v where rd: "read_audio L p = (out2, v)"
      by (cases "read_audio L p") auto
    note nw2 = read_audio_not_write [OF rd, of output_path data rate]
    show ?thesis
    proof (cases v)
      case None
      with g Inr rd assms nw1 nw2 show ?thesis by (simp add: main_def unpack_def)
    next
      case (Some pr)
      obtain a sr where pr: "pr = (a, sr)" by (cases pr) auto
      show ?thesis
      proof (cases "process_audio L a sr (main_options sr)")
        case (Inl e)
        with g Inr rd Some pr assms nw1 nw2 show ?thesis
          by (simp add: main_def unpack_def is_None_def)
      next
        case pa: (Inr processed)
        obtain r3 rest3 out3
          where g3: "get_user_input ''Enter the path to save the processed audio file: '' rest
                       = (r3, rest3, out3)"
          by (cases "get_user_input ''Enter the path to save the processed audio file: '' rest") auto
        note nw3 = get_user_input_not_write [OF g3, of output_path data rate]
        show ?thesis
        proof (cases r3)
          case (Inl e)
          with g Inr rd Some pr pa g3 assms nw1 nw2 nw3 show ?thesis
            by (simp add: main_def unpack_def is_None_def)
        next
          case o: (Inr outp)
          from g Inr rd Some pr pa g3 o assms nw1 nw2 nw3
          have "data = processed \<and> rate = sr"
            by (auto simp: main_def unpack_def is_None_def write_audio_def split: sum.splits)
          with g Inr rd Some pr pa show ?thesis by simp
        qed
      qed
    qed
  qed
qed

text \<open>
  The theorem at a run that reads \<open>tone.wav\<close> (rate 8000), skips an empty line at the
  second prompt and writes \<open>out.wav\<close>.
\<close>

theorem sample_rate_propagated_witness:
  "SfWrite ''out.wav'' [1, - 0.6] 8000
     \<in> set (snd (main test_lib [''tone.wav'', [], ''out.wav'']))
   \<and> snd (read_audio test_lib ''tone.wav'') = Some ([0.5, - 0.25], 8000)
   \<and> process_audio test_lib [0.5, - 0.25] 8000 (main_options 8000) = Inr [1, - 0.6]"
proof -
  have h: "SfWrite ''out.wav'' [1, - 0.6] 8000
             \<in> set (snd (main test_lib [''tone.wav'', [], ''out.wav'']))"
    by (simp add: main_def read_audio_def read_audio_try_def test_lib_def string_defs
        unpack_def is_None_def process_audio_def main_options_def dict_get_def
        dict_get_default_def write_audio_def)
  have r: "snd (read_audio test_lib ''tone.wav'') = Some ([0.5, - 0.25], 8000)"
    by (simp add: read_audio_def read_audio_try_def test_lib_def string_defs)
  have g: "get_user_input ''Enter the path to your audio file: '' [''tone.wav'', [], ''out.wav'']
             = (Inr ''tone.wav'', [[], ''out.wav''], [Input ''Enter the path to your audio file: ''])"
    by (simp add: strip_def isspace_def)
  from sample_rate_propagated [OF h] g r
  have "process_audio test_lib [0.5, - 0.25] 8000 (main_options 8000) = Inr [1, - 0.6]"
    by auto
  with h r show ?thesis by simp
qed

section \<open>Where the code leaves its own intent\<close>

text \<open>
  Claim C5.  \<open>get_user_input\<close> tests the line for emptiness before it strips it: a line
  of three spaces passes the test and the function returns the empty string, with no
  further prompt and the next line left unread.
\<close>

theorem get_user_input_blank_line:
  "get_user_input ''Enter the path to your audio file: '' [''   '', ''song.wav'']
     = (Inr [], [''song.wav''], [Input ''Enter the path to your audio file: ''])"
  by (simp add: strip_def isspace_def)

text \<open>
  Claim C10.  Reading \<open>clip.m4a\<close> returns the rate 22050 and its three samples divided
  by 32767, the greatest 16-bit value: the sample \<open>-32768\<close> becomes a number below
  \<open>-1\<close>, outside the range the comment on line 29 names.
\<close>

theorem read_audio_m4a_below_minus_one:
  "snd (read_audio test_lib ''clip.m4a'') = Some ([- 32768 / 32767, 0, 1], 22050)
   \<and> (- 32768 / 32767 :: real) < - 1"
  by (simp add: read_audio_def read_audio_try_def test_lib_def samples_to_float_def string_defs)

section \<open>What the two routines return\<close>

lemma peak_nonneg: "0 \<le> peak a"
  by (induction a) simp_all

lemma peak_divide: "0 < c \<Longrightarrow> peak (map (\<lambda>x. x / c) a) = peak a / c"
proof (induction a)
  case Nil
  then show ?case by simp
next
  case (Cons x xs)
  have "max (\<bar>x\<bar> / c) (peak xs / c) = max \<bar>x\<bar> (peak xs) / c"
    using Cons.prems by (simp add: max_def divide_le_cancel)
  with Cons show ?case by simp
qed

lemma peak_normalized: "peak a \<noteq> 0 \<Longrightarrow> peak (map (\<lambda>x. x / peak a) a) = 1"
proof -
  assume nz: "peak a \<noteq> 0"
  with peak_nonneg [of a] have "0 < peak a" by simp
  from peak_divide [OF this, of a] nz show ?thesis by simp
qed

lemma peak_nonzero_nonempty: "peak a \<noteq> 0 \<Longrightarrow> a \<noteq> []"
  by auto

lemma map2_zero_coefficient:
  "length xs \<le> length ps \<Longrightarrow> map2 (\<lambda>x prev. x - (0::real) * prev) xs ps = xs"
proof (induction xs arbitrary: ps)
  case Nil
  then show ?case by simp
next
  case (Cons x xs)
  then show ?case by (cases ps) simp_all
qed

lemma effects_preemphasis_zero:
  "effects_preemphasis (y0 # y1 # ys) 0 = Inr ((3 * y0 - y1) # y1 # ys)"
proof -
  have "map2 (\<lambda>x prev. x - (0::real) * prev) (y1 # ys) (y0 # y1 # ys) = y1 # ys"
    by (rule map2_zero_coefficient) simp
  then show ?thesis by (simp add: Let_def)
qed

lemma with_librosa_simps:
  "librosa_normalize (with_librosa L) = util_normalize"
  "librosa_preemphasis (with_librosa L) = effects_preemphasis"
  by (simp_all add: with_librosa_def)

lemma process_audio_normalize_only:
  assumes "truthy (dict_get options ''normalize'')"
    and "speech_emphasis_step L sample_rate options audio_data = Inr a"
  shows "process_audio L audio_data sample_rate options = librosa_normalize L a"
  using assms
  by (simp add: process_audio_eq_spec process_audio_spec_def normalize_step_def)

lemma speech_emphasis_step_off:
  "\<not> truthy (dict_get options ''speech_emphasis'')
     \<Longrightarrow> speech_emphasis_step L sample_rate options a = Inr a"
  by (simp add: speech_emphasis_step_def)

text \<open>
  Claim C7, as stated, at a silent buffer: with \<open>normalize\<close> enabled the two zero
  samples come back as they are, and their greatest absolute value is 0, not 1.
\<close>

theorem normalize_silent_counterexample:
  "process_audio (with_librosa test_lib) [0, 0] 8000 [''normalize'' \<mapsto> PBool True] = Inr [0, 0]
   \<and> peak [0, 0] \<noteq> 1"
  by (simp add: process_audio_def dict_get_def with_librosa_def util_normalize_def)

text \<open>
  Claim C7, amended.  With \<open>normalize\<close> enabled, let \<open>a\<close> be the buffer that reaches the
  normalisation step (the input, pre-emphasised if that switch is on).  If \<open>a\<close> has a
  sample other than zero, \<open>process_audio\<close> returns \<open>a\<close> divided by its peak, and the
  greatest absolute sample of the result is 1.  If \<open>a\<close> is silent and not empty, it is
  returned unchanged.
\<close>

theorem normalize_peak_one:
  assumes n: "truthy (dict_get options ''normalize'')"
    and s: "speech_emphasis_step (with_librosa L) sample_rate options audio_data = Inr a"
  shows "(peak a \<noteq> 0 \<longrightarrow>
            process_audio (with_librosa L) audio_data sample_rate options
              = Inr (map (\<lambda>x. x / peak a) a)
          \<and> peak (map (\<lambda>x. x / peak a) a) = 1)
       \<and> (peak a = 0 \<and> a \<noteq> [] \<longrightarrow>
            process_audio (with_librosa L) audio_data sample_rate options = Inr a)"
proof (intro conjI impI)
  assume nz: "peak a \<noteq> 0"
  then have "a \<noteq> []" by (rule peak_nonzero_nonempty)
  with nz show "process_audio (with_librosa L) audio_data sample_rate options
              = Inr (map (\<lambda>x. x / peak a) a)"
    by (simp add: process_audio_normalize_only [OF n s] with_librosa_simps util_normalize_def)
  from nz show "peak (map (\<lambda>x. x / peak a) a) = 1"
    by (rule peak_normalized)
next
  assume "peak a = 0 \<and> a \<noteq> []"
  then show "process_audio (with_librosa L) audio_data sample_rate options = Inr a"
    by (simp add: process_audio_normalize_only [OF n s] with_librosa_simps util_normalize_def)
qed

text \<open>
  The theorem at the buffer of \<open>tone.wav\<close>, peak 0.5, and at a silent buffer, with
  normalisation alone.
\<close>

theorem normalize_peak_one_witness:
  "truthy (dict_get [''normalize'' \<mapsto> PBool True] ''normalize'')
   \<and> peak [0.5, - 0.25] \<noteq> 0
   \<and> process_audio (with_librosa test_lib) [0.5, - 0.25] 8000 [''normalize'' \<mapsto> PBool True]
       = Inr [1, - 0.5]
   \<and> peak [1, - 0.5] = 1
   \<and> process_audio (with_librosa test_lib) [0, 0] 8000 [''normalize'' \<mapsto> PBool True]
       = Inr [0, 0]"
proof -
  have n: "truthy (dict_get [''normalize'' \<mapsto> PBool True] ''normalize'')"
    by (simp add: dict_get_def)
  have s: "speech_emphasis_step (with_librosa test_lib) 8000 [''normalize'' \<mapsto> PBool True]
             [0.5, - 0.25] = Inr [0.5, - 0.25]"
    by (simp add: speech_emphasis_step_def dict_get_def)
  have s0: "speech_emphasis_step (with_librosa test_lib) 8000 [''normalize'' \<mapsto> PBool True]
             [0, 0] = Inr [0, 0]"
    by (simp add: speech_emphasis_step_def dict_get_def)
  have p: "peak [0.5, - 0.25] = 0.5" by simp
  have p0: "peak [0, 0] = 0 \<and> [0, 0 :: real] \<noteq> []" by simp
  from normalize_peak_one [OF n s] p
  have "process_audio (with_librosa test_lib) [0.5, - 0.25] 8000 [''normalize'' \<mapsto> PBool True]
          = Inr [1, - 0.5]"
    by simp
  moreover from normalize_peak_one [OF n s0] p0
  have "process_audio (with_librosa test_lib) [0, 0] 8000 [''normalize'' \<mapsto> PBool True]
          = Inr [0, 0]"
    by blast
  ultimately show ?thesis using n p by simp
qed

text \<open>
  Claim C8.  For every buffer whose greatest absolute sample is already 1, the
  normalisation step returns the buffer unchanged; so does \<open>process_audio\<close> with
  \<open>normalize\<close> enabled and pre-emphasis off, and running it on its own result gives
  the same result again.
\<close>

theorem normalize_fixed_point:
  assumes n: "truthy (dict_get options ''normalize'')"
    and e: "\<not> truthy (dict_get options ''speech_emphasis'')"
    and p: "peak audio_data = 1"
  shows "librosa_normalize (with_librosa L) audio_data = Inr audio_data
       \<and> process_audio (with_librosa L) audio_data sample_rate options = Inr audio_data
       \<and> (case process_audio (with_librosa L) audio_data sample_rate options of
            Inl err \<Rightarrow> Inl err
          | Inr b \<Rightarrow> process_audio (with_librosa L) b sample_rate options)
           = process_audio (with_librosa L) audio_data sample_rate options"
proof -
  from p have ne: "audio_data \<noteq> []" by auto
  have "map (\<lambda>x. x / peak audio_data) audio_data = audio_data"
    by (simp add: p)
  with ne p have u: "util_normalize audio_data = Inr audio_data"
    by (simp add: util_normalize_def)
  have s: "speech_emphasis_step (with_librosa L) sample_rate options audio_data = Inr audio_data"
    using e by (rule speech_emphasis_step_off)
  have pa: "process_audio (with_librosa L) audio_data sample_rate options = Inr audio_data"
    using process_audio_normalize_only [OF n s] u
    by (simp add: with_librosa_simps)
  from u pa show ?thesis by (simp add: with_librosa_simps)
qed

text \<open>The theorem at a buffer of peak 1, with normalisation alone.\<close>

theorem normalize_fixed_point_witness:
  "truthy (dict_get [''normalize'' \<mapsto> PBool True] ''normalize'')
   \<and> \<not> truthy (dict_get [''normalize'' \<mapsto> PBool True] ''speech_emphasis'')
   \<and> peak [1, - 0.5] = 1
   \<and> process_audio (with_librosa test_lib) [1, - 0.5] 8000 [''normalize'' \<mapsto> PBool True]
       = Inr [1, - 0.5]"
proof -
  have n: "truthy (dict_get [''normalize'' \<mapsto> PBool True] ''normalize'')"
    by (simp add: dict_get_def)
  have e: "\<not> truthy (dict_get [''normalize'' \<mapsto> PBool True] ''speech_emphasis'')"
    by (simp add: dict_get_def)
  have p: "peak [1, - 0.5] = 1" by simp
  from normalize_fixed_point [OF n e p, of test_lib 8000] n e p show ?thesis by blast
qed

text \<open>
  Claim C9, as stated, at the buffer of \<open>tone.wav\<close>: with \<open>rolloff_freq = 0\<close> the
  coefficient is 0, and the speech-emphasis step returns 1.75 for the first sample 0.5.
\<close>

theorem preemphasis_zero_counterexample:
  "process_audio (with_librosa test_lib) [0.5, - 0.25] 8000
      [''speech_emphasis'' \<mapsto> PBool True, ''rolloff_freq'' \<mapsto> PFloat 0]
     = Inr [1.75, - 0.25]
   \<and> [1.75, - 0.25] \<noteq> [0.5, - 0.25 :: real]"
  by (simp add: process_audio_def dict_get_def dict_get_default_def with_librosa_def)

text \<open>
  Claim C9, amended.  With \<open>speech_emphasis\<close> enabled, normalisation off, a sample
  rate other than zero and \<open>rolloff_freq = 0\<close>, a buffer of at least two samples comes
  back with every sample but the first unchanged; the first sample \<open>x0\<close> comes back as
  \<open>3 * x0 - x1\<close>, the filter's starting state \<open>2 * x0 - x1\<close> added to it.  The buffer
  is unchanged exactly when \<open>x1 = 2 * x0\<close>.
\<close>

theorem preemphasis_zero_coefficient:
  assumes e: "truthy (dict_get options ''speech_emphasis'')"
    and n: "\<not> truthy (dict_get options ''normalize'')"
    and k: "options ''rolloff_freq'' = Some v"
    and z: "float_of v = Some 0"
    and sr: "sample_rate \<noteq> 0"
  shows "process_audio (with_librosa L) (y0 # y1 # ys) sample_rate options
           = Inr ((3 * y0 - y1) # y1 # ys)
       \<and> ((process_audio (with_librosa L) (y0 # y1 # ys) sample_rate options
             = Inr (y0 # y1 # ys)) = (y1 = 2 * y0))"
proof -
  from k z have "float_of (dict_get_default options ''rolloff_freq''
                   (PFloat (0.1 * real_of_int sample_rate))) = Some 0"
    by (simp add: dict_get_default_def)
  from true_div_float_of [OF this sr]
  have "true_div (dict_get_default options ''rolloff_freq''
                   (PFloat (0.1 * real_of_int sample_rate))) sample_rate = Inr 0"
    by simp
  with e n
  have "process_audio (with_librosa L) (y0 # y1 # ys) sample_rate options
          = effects_preemphasis (y0 # y1 # ys) 0"
    by (simp add: process_audio_eq_spec process_audio_spec_def speech_emphasis_step_def
        normalize_step_def with_librosa_simps split: sum.splits)
  then have r: "process_audio (with_librosa L) (y0 # y1 # ys) sample_rate options
          = Inr ((3 * y0 - y1) # y1 # ys)"
    by (simp only: effects_preemphasis_zero)
  have "(3 * y0 - y1 = y0) = (y1 = 2 * y0)" by auto
  with r show ?thesis by simp
qed

text \<open>
  The theorem at the buffer of \<open>tone.wav\<close>, and at a buffer whose second sample is
  twice the first.
\<close>

theorem preemphasis_zero_coefficient_witness:
  "process_audio (with_librosa test_lib) [0.5, - 0.25] 8000
      [''speech_emphasis'' \<mapsto> PBool True, ''rolloff_freq'' \<mapsto> PFloat 0]
     = Inr [1.75, - 0.25]
   \<and> process_audio (with_librosa test_lib) [0.25, 0.5, 0.125] 8000
      [''speech_emphasis'' \<mapsto> PBool True, ''rolloff_freq'' \<mapsto> PFloat 0]
     = Inr [0.25, 0.5, 0.125]"
proof -
  have e: "truthy (dict_get [''speech_emphasis'' \<mapsto> PBool True, ''rolloff_freq'' \<mapsto> PFloat 0]
                     ''speech_emphasis'')"
    by (simp add: dict_get_def)
  have n: "\<not> truthy (dict_get [''speech_emphasis'' \<mapsto> PBool True, ''rolloff_freq'' \<mapsto> PFloat 0]
                     ''normalize'')"
    by (simp add: dict_get_def)
  have k: "[''speech_emphasis'' \<mapsto> PBool True, ''rolloff_freq'' \<mapsto> PFloat 0] ''rolloff_freq''
             = Some (PFloat 0)"
    by simp
  have z: "float_of (PFloat 0) = Some 0" by simp
  have sr: "(8000::int) \<noteq> 0" by simp
  from preemphasis_zero_coefficient
         [where options = "[''speech_emphasis'' \<mapsto> PBool True, ''rolloff_freq'' \<mapsto> PFloat 0]"
            and L = test_lib and ?y0.0 = "0.5" and ?y1.0 = "- 0.25" and ys = "[]",
          OF e n k z sr, THEN conjunct1]
  have a: "process_audio (with_librosa test_lib) [0.5, - 0.25] 8000
      [''speech_emphasis'' \<mapsto> PBool True, ''rolloff_freq'' \<mapsto> PFloat 0]
     = Inr [1.75, - 0.25]"
    by simp
  from preemphasis_zero_coefficient
         [where options = "[''speech_emphasis'' \<mapsto> PBool True, ''rolloff_freq'' \<mapsto> PFloat 0]"
            and L = test_lib and ?y0.0 = "0.25" and ?y1.0 = "0.5" and ys = "[0.125]",
          OF e n k z sr, THEN conjunct1]
  have b: "process_audio (with_librosa test_lib) [0.25, 0.5, 0.125] 8000
      [''speech_emphasis'' \<mapsto> PBool True, ''rolloff_freq'' \<mapsto> PFloat 0]
     = Inr [0.25, 0.5, 0.125]"
    by simp
  from a b show ?thesis by simp
qed

end
